theory Spec2Isabelle
  imports Main "HOL-Library.AList"
begin

section \<open>Values of a parsed configuration document\<close>

text \<open>
  \<^verbatim>\<open>migrate.ts\<close> works on the untyped values that the YAML loader returns (\<^verbatim>\<open>spec: any\<close>).
  A value is \<^verbatim>\<open>null\<close>, a boolean, a number, a string, an array or an object. An object is
  kept as an association list of its own properties. The program reads, writes and deletes
  properties by name only, so the order of the list carries no meaning; a read takes the
  first pair of a name (the loader rejects a document that repeats a key, so a name occurs
  once). A property that is missing reads as \<^verbatim>\<open>undefined\<close>, which is \<open>None\<close> here.
  Documents are taken as trees: two places of a document never share one object. Numbers
  are integers: the program only copies numbers and tests whether they are zero.
\<close>

datatype json =
    JNull
  | JBool bool
  | JNum int
  | JStr string
  | JArr "json list"
  | JObj "(string \<times> json) list"

text \<open>
  The two failures of the program: a \<^verbatim>\<open>TypeError\<close> of the runtime (a property read on
  \<^verbatim>\<open>null\<close> or \<^verbatim>\<open>undefined\<close>, a call of something that is no function, a spread of something
  that is not iterable) and the \<^verbatim>\<open>ConfigurationError\<close> that \<^verbatim>\<open>removeEnvironmentDefaults\<close>
  throws, with the path it was given.
\<close>

datatype error = TypeError | ConfigurationError string

text \<open>The truth value of a value in a condition: \<^verbatim>\<open>if (v)\<close>, \<^verbatim>\<open>!!v\<close>, \<^verbatim>\<open>v || w\<close>.\<close>

fun truthy :: "json \<Rightarrow> bool" where
  "truthy JNull = False"
| "truthy (JBool b) = b"
| "truthy (JNum n) = (n \<noteq> 0)"
| "truthy (JStr s) = (s \<noteq> [])"
| "truthy (JArr xs) = True"
| "truthy (JObj kvs) = True"

text \<open>
  \<^verbatim>\<open>v.k\<close> for a value \<open>v\<close> that is not \<^verbatim>\<open>null\<close>. The names the program reads are
  \<^verbatim>\<open>project\<close>, \<^verbatim>\<open>module\<close>, \<^verbatim>\<open>kind\<close>, \<^verbatim>\<open>type\<close>, \<^verbatim>\<open>environments\<close>, \<^verbatim>\<open>providers\<close>, \<^verbatim>\<open>name\<close>,
  \<^verbatim>\<open>environmentDefaults\<close>, \<^verbatim>\<open>varfile\<close> and \<^verbatim>\<open>variables\<close>: none of them is a property of an
  array, a string, a number or a boolean, so only an object answers. The read of a property
  of \<^verbatim>\<open>null\<close> is a \<^verbatim>\<open>TypeError\<close> and is written out where the program can meet it.
\<close>

fun getProp :: "json \<Rightarrow> string \<Rightarrow> json option" where
  "getProp (JObj kvs) k = map_of kvs k"
| "getProp _ k = None"

text \<open>\<^verbatim>\<open>if (v.k)\<close>: the value of the property when it is there and truthy.\<close>

definition truthyProp :: "json \<Rightarrow> string \<Rightarrow> json option" where
  "truthyProp v k =
     (case getProp v k of
        None \<Rightarrow> None
      | Some w \<Rightarrow> if truthy w then Some w else None)"

text \<open>
  \<^verbatim>\<open>v.k = w\<close> and \<^verbatim>\<open>delete v.k\<close>. Every assignment of the program follows a successful read
  of a property of the same value, so the target is an object.
\<close>

fun setProp :: "json \<Rightarrow> string \<Rightarrow> json \<Rightarrow> json" where
  "setProp (JObj kvs) k w = JObj (AList.update k w kvs)"
| "setProp v k w = v"

fun deleteProp :: "json \<Rightarrow> string \<Rightarrow> json" where
  "deleteProp (JObj kvs) k = JObj (AList.delete k kvs)"
| "deleteProp v k = v"

text \<open>The decimal name of an array index, as in \<^verbatim>\<open>String(i)\<close>.\<close>

definition digit :: "nat \<Rightarrow> char" where
  "digit d = char_of (48 + d)"

function decimal :: "nat \<Rightarrow> string" where
  "decimal n = (if n < 10 then [digit n] else decimal (n div 10) @ [digit (n mod 10)])"
  by pat_completeness auto
termination
  by (relation "measure id") auto

declare decimal.simps [simp del]

text \<open>
  The own enumerable properties that an object spread \<^verbatim>\<open>{ ...v }\<close> copies: the properties of
  an object, the elements of an array under their indices, the characters of a string under
  their indices, and nothing for a number, a boolean or \<^verbatim>\<open>null\<close>. A string is a list of
  characters, each of them one unit of the source's strings.
\<close>

fun ownProps :: "json \<Rightarrow> (string \<times> json) list" where
  "ownProps (JObj kvs) = kvs"
| "ownProps (JArr xs) = zip (map decimal [0..<length xs]) xs"
| "ownProps (JStr s) = zip (map decimal [0..<length s]) (map (\<lambda>c. JStr [c]) s)"
| "ownProps v = []"

text \<open>
  \<^verbatim>\<open>{ ...acc, ...v }\<close> for the properties \<open>acc\<close> written so far: every property of \<open>v\<close> is
  assigned, replacing the value of a name that is already there
  (\<open>map_of (AList.merge xs ys) = map_of xs ++ map_of ys\<close>).
\<close>

definition spreadInto :: "(string \<times> json) list \<Rightarrow> json \<Rightarrow> (string \<times> json) list" where
  "spreadInto acc v = AList.merge acc (ownProps v)"

text \<open>
  The elements that an array spread \<^verbatim>\<open>[...v]\<close> iterates: an array and a string are iterable,
  nothing else is.
\<close>

fun iterate :: "json \<Rightarrow> error + json list" where
  "iterate (JArr xs) = Inr xs"
| "iterate (JStr s) = Inr (map (\<lambda>c. JStr [c]) s)"
| "iterate v = Inl TypeError"

text \<open>\<^verbatim>\<open>v || w\<close> for a property \<open>v\<close> that may be missing.\<close>

definition orElse :: "json option \<Rightarrow> json \<Rightarrow> json" where
  "orElse v w = (case v of None \<Rightarrow> w | Some u \<Rightarrow> if truthy u then u else w)"

section \<open>The rewrite of one document (\<^verbatim>\<open>migrate.ts\<close>)\<close>

subsection \<open>\<^verbatim>\<open>applyFlatStyle\<close>\<close>

text \<open>
  \<^verbatim>\<open>
  function applyFlatStyle(spec: any) {
    if (spec.project) {
      spec = { kind: "Project", ...spec.project }
    } else if (spec.module) {
      spec = { kind: "Module", ...spec.module }
    }
    return spec
  }
  \<close>
\<close>

definition applyFlatStyle :: "json \<Rightarrow> error + json" where
  "applyFlatStyle spec =
     (if spec = JNull then Inl TypeError
      else case truthyProp spec ''project'' of
        Some project \<Rightarrow> Inr (JObj (spreadInto [(''kind'', JStr ''Project'')] project))
      | None \<Rightarrow>
         (case truthyProp spec ''module'' of
            Some module \<Rightarrow> Inr (JObj (spreadInto [(''kind'', JStr ''Module'')] module))
          | None \<Rightarrow> Inr spec))"

subsection \<open>\<^verbatim>\<open>removeLocalOpenFaas\<close>\<close>

text \<open>
  The body of both provider loops:
  \<^verbatim>\<open>
  if (provider.name === "local-openfaas") { <the provider in the spec>.name = "openfaas" }
  \<close>
  The loops write into the objects of the spec in place; here each loop returns the list
  with its elements rewritten, and stops at the first \<^verbatim>\<open>TypeError\<close>.
\<close>

definition renameProvider :: "json \<Rightarrow> error + json" where
  "renameProvider provider =
     (if provider = JNull then Inl TypeError
      else if getProp provider ''name'' = Some (JStr ''local-openfaas'')
        then Inr (setProp provider ''name'' (JStr ''openfaas''))
        else Inr provider)"

text \<open>\<^verbatim>\<open>for (const [providerIdx, provider] of providers.entries()) { ... }\<close>\<close>

fun renameProviders :: "json list \<Rightarrow> error + json list" where
  "renameProviders [] = Inr []"
| "renameProviders (provider # rest) =
     (case renameProvider provider of
        Inl e \<Rightarrow> Inl e
      | Inr provider' \<Rightarrow>
         (case renameProviders rest of
            Inl e \<Rightarrow> Inl e
          | Inr rest' \<Rightarrow> Inr (provider' # rest')))"

text \<open>
  \<^verbatim>\<open>
  if (!v.providers) { continue }          // or: if (v.providers) { ... }
  for (... of v.providers.entries()) { ... }
  \<close>
  for \<open>v\<close> an environment or the spec. \<^verbatim>\<open>entries\<close> is a method of arrays only: on any other
  truthy value the call is a \<^verbatim>\<open>TypeError\<close>.
\<close>

definition renameProvidersOf :: "json \<Rightarrow> error + json" where
  "renameProvidersOf v =
     (case truthyProp v ''providers'' of
        None \<Rightarrow> Inr v
      | Some (JArr providers) \<Rightarrow>
         (case renameProviders providers of
            Inl e \<Rightarrow> Inl e
          | Inr providers' \<Rightarrow> Inr (setProp v ''providers'' (JArr providers')))
      | Some _ \<Rightarrow> Inl TypeError)"

definition renameEnvironment :: "json \<Rightarrow> error + json" where
  "renameEnvironment env =
     (if env = JNull then Inl TypeError else renameProvidersOf env)"

text \<open>\<^verbatim>\<open>for (const [envIdx, env] of spec.environments.entries()) { ... }\<close>\<close>

fun renameEnvironments :: "json list \<Rightarrow> error + json list" where
  "renameEnvironments [] = Inr []"
| "renameEnvironments (env # rest) =
     (case renameEnvironment env of
        Inl e \<Rightarrow> Inl e
      | Inr env' \<Rightarrow>
         (case renameEnvironments rest of
            Inl e \<Rightarrow> Inl e
          | Inr rest' \<Rightarrow> Inr (env' # rest')))"

text \<open>
  \<^verbatim>\<open>
  function removeLocalOpenFaas(spec: any) {
    const isProject = spec.kind === "Project"
    if (spec.type === "local-openfaas") { spec.type = "openfaas" }
    if (isProject) {
      for (const [envIdx, env] of spec.environments.entries()) { ... }
      if (spec.providers) { for (... of spec.providers.entries()) { ... } }
    }
  }
  \<close>
  The function mutates \<open>spec\<close>; the model returns the mutated spec.
\<close>

definition removeLocalOpenFaas :: "json \<Rightarrow> error + json" where
  "removeLocalOpenFaas spec =
     (if spec = JNull then Inl TypeError
      else
        let isProject = (getProp spec ''kind'' = Some (JStr ''Project''));
            spec1 = (if getProp spec ''type'' = Some (JStr ''local-openfaas'')
                     then setProp spec ''type'' (JStr ''openfaas'') else spec)
        in if \<not> isProject then Inr spec1
           else case getProp spec1 ''environments'' of
             Some (JArr envs) \<Rightarrow>
               (case renameEnvironments envs of
                  Inl e \<Rightarrow> Inl e
                | Inr envs' \<Rightarrow> renameProvidersOf (setProp spec1 ''environments'' (JArr envs')))
           | _ \<Rightarrow> Inl TypeError)"

subsection \<open>\<^verbatim>\<open>removeEnvironmentDefaults\<close>\<close>

text \<open>
  The source reads \<^verbatim>\<open>spec.environmentDefaults\<close> again at each use. None of the assignments
  in between writes that property, so it is read once here and passed on as \<open>defaults\<close>.

  \<^verbatim>\<open>
  if (spec.environmentDefaults.varfile) {
    if (spec.varfile) { throw new ConfigurationError(msg, { path }) }
    else { spec.varfile = spec.environmentDefaults.varfile }
  }
  \<close>
\<close>

definition hoistVarfile :: "json \<Rightarrow> json \<Rightarrow> string \<Rightarrow> error + json" where
  "hoistVarfile spec defaults path =
     (case truthyProp defaults ''varfile'' of
        None \<Rightarrow> Inr spec
      | Some varfile \<Rightarrow>
         (case truthyProp spec ''varfile'' of
            Some _ \<Rightarrow> Inl (ConfigurationError path)
          | None \<Rightarrow> Inr (setProp spec ''varfile'' varfile)))"

text \<open>
  \<^verbatim>\<open>
  if (spec.environmentDefaults.variables) {
    spec.variables = { ...(spec.variables || {}), ...spec.environmentDefaults.variables }
  }
  \<close>
\<close>

definition mergeVariables :: "json \<Rightarrow> json \<Rightarrow> json" where
  "mergeVariables spec defaults =
     (case truthyProp defaults ''variables'' of
        None \<Rightarrow> spec
      | Some variables \<Rightarrow>
          setProp spec ''variables''
            (JObj (spreadInto (spreadInto [] (orElse (getProp spec ''variables'') (JObj [])))
                     variables)))"

text \<open>
  \<^verbatim>\<open>
  if (spec.environmentDefaults.providers) {
    spec.providers = [...(spec.providers || []), ...spec.environmentDefaults.providers]
  }
  \<close>
\<close>

definition mergeProviders :: "json \<Rightarrow> json \<Rightarrow> error + json" where
  "mergeProviders spec defaults =
     (case truthyProp defaults ''providers'' of
        None \<Rightarrow> Inr spec
      | Some providers \<Rightarrow>
         (case iterate (orElse (getProp spec ''providers'') (JArr [])) of
            Inl e \<Rightarrow> Inl e
          | Inr own \<Rightarrow>
             (case iterate providers of
                Inl e \<Rightarrow> Inl e
              | Inr hoisted \<Rightarrow> Inr (setProp spec ''providers'' (JArr (own @ hoisted))))))"

text \<open>
  \<^verbatim>\<open>
  function removeEnvironmentDefaults(spec: any, path: string) {
    if (spec.environmentDefaults) {
      <varfile>  <variables>  <providers>
      delete spec.environmentDefaults
    }
  }
  \<close>
\<close>

definition removeEnvironmentDefaults :: "json \<Rightarrow> string \<Rightarrow> error + json" where
  "removeEnvironmentDefaults spec path =
     (if spec = JNull then Inl TypeError
      else case truthyProp spec ''environmentDefaults'' of
        None \<Rightarrow> Inr spec
      | Some defaults \<Rightarrow>
         (case hoistVarfile spec defaults path of
            Inl e \<Rightarrow> Inl e
          | Inr spec1 \<Rightarrow>
             (case mergeProviders (mergeVariables spec1 defaults) defaults of
                Inl e \<Rightarrow> Inl e
              | Inr spec2 \<Rightarrow> Inr (deleteProp spec2 ''environmentDefaults''))))"

subsection \<open>The rewrite of one spec in \<^verbatim>\<open>MigrateCommand.action\<close>\<close>

text \<open>
  \<^verbatim>\<open>
  spec = applyFlatStyle(spec)
  removeLocalOpenFaas(spec)
  removeEnvironmentDefaults(spec, configPath)
  updatedSpecs.push(spec)
  \<close>
\<close>

definition migrateSpec :: "json \<Rightarrow> string \<Rightarrow> error + json" where
  "migrateSpec spec configPath =
     (case applyFlatStyle spec of
        Inl e \<Rightarrow> Inl e
      | Inr flat \<Rightarrow>
         (case removeLocalOpenFaas flat of
            Inl e \<Rightarrow> Inl e
          | Inr renamed \<Rightarrow> removeEnvironmentDefaults renamed configPath))"

section \<open>The search for the project root (\<^verbatim>\<open>findRoot\<close> in \<^verbatim>\<open>migrate.ts\<close>)\<close>

text \<open>
  A path is kept as what the \<^verbatim>\<open>path\<close> module of the runtime makes of it on a POSIX system:
  whether it starts at the root, and its segments between the separators.
\<close>

datatype path = Path (isAbsolute: bool) (segments: "string list")

text \<open>
  The file system as \<^verbatim>\<open>findRoot\<close> sees it: for a directory, the documents that
  \<^verbatim>\<open>yaml.safeLoadAll\<close> returns for the file at \<^verbatim>\<open>getConfigFilePath(path)\<close>, or \<open>None\<close> when
  reading or parsing that file throws.
\<close>

type_synonym configFiles = "path \<Rightarrow> json list option"

text \<open>\<^verbatim>\<open>readYaml\<close>: \<^verbatim>\<open>return rawSpecs.filter(Boolean)\<close> (empty documents are dropped).\<close>

definition readYaml :: "configFiles \<Rightarrow> path \<Rightarrow> json list option" where
  "readYaml files path = map_option (filter truthy) (files path)"

text \<open>\<^verbatim>\<open>(spec) => !!spec.project || spec.kind === "Project"\<close>\<close>

definition isProjectSpec :: "json \<Rightarrow> bool" where
  "isProjectSpec spec =
     (case truthyProp spec ''project'' of
        Some _ \<Rightarrow> True
      | None \<Rightarrow> getProp spec ''kind'' = Some (JStr ''Project''))"

text \<open>
  \<^verbatim>\<open>
  let isProjectRoot = false
  try {
    const rawSpecs = await readYaml(configFilePath)
    isProjectRoot = rawSpecs.find((spec) => !!spec.project || spec.kind === "Project")
  } catch (err) { }
  if (isProjectRoot) { ... }
  \<close>
\<close>

definition isProjectRoot :: "configFiles \<Rightarrow> path \<Rightarrow> bool" where
  "isProjectRoot files path =
     (case readYaml files path of
        None \<Rightarrow> False
      | Some rawSpecs \<Rightarrow>
         (case List.find isProjectSpec rawSpecs of
            None \<Rightarrow> False
          | Some spec \<Rightarrow> truthy spec))"

text \<open>\<^verbatim>\<open>parse(path).root\<close>: \<^verbatim>\<open>"/"\<close> for a path that starts at the root, \<^verbatim>\<open>""\<close> for any other.\<close>

definition parseRoot :: "path \<Rightarrow> string" where
  "parseRoot path = (if isAbsolute path then ''/'' else [])"

text \<open>
  \<^verbatim>\<open>resolve(path, segment)\<close> in the working directory \<open>cwd\<close>: the segments are read from an
  absolute start (the path itself, or the working directory before it), an empty segment
  and \<^verbatim>\<open>.\<close> are skipped, \<^verbatim>\<open>..\<close> drops the segment before it and stays at the root.
\<close>

definition normalizeStep :: "string \<Rightarrow> string list \<Rightarrow> string list" where
  "normalizeStep segment resolved =
     (if segment = [] \<or> segment = ''.'' then resolved
      else if segment = ''..'' then butlast resolved
      else resolved @ [segment])"

definition normalizeSegments :: "string list \<Rightarrow> string list" where
  "normalizeSegments segs = fold normalizeStep segs []"

definition resolve :: "path \<Rightarrow> path \<Rightarrow> string \<Rightarrow> path" where
  "resolve cwd path segment =
     Path True (normalizeSegments
       ((if isAbsolute path then [] else segments cwd) @ segments path @ [segment]))"

text \<open>
  \<^verbatim>\<open>
  async function findRoot(path: string): Promise<string | null> {
    <isProjectRoot>
    if (isProjectRoot) { return path }
    // We're at the file system root and no project file was found
    if (parse(path).root) { return null }
    return findRoot(resolve(path, ".."))
  }
  \<close>
\<close>

function findRoot :: "configFiles \<Rightarrow> path \<Rightarrow> path \<Rightarrow> path option" where
  "findRoot files cwd path =
     (if isProjectRoot files path then Some path
      else if parseRoot path \<noteq> [] then None
      else findRoot files cwd (resolve cwd path ''..''))"
  by pat_completeness auto
termination
  by (relation "measure (\<lambda>(files, cwd, path). if isAbsolute path then 0 else 1)")
     (auto simp: parseRoot_def resolve_def)

declare findRoot.simps [simp del]

text \<open>
  The search as the specification words it: the chain from the start upward through the
  parent directories to the root of the file system, and the first path on it that holds
  a project-level configuration.
\<close>

definition parentChain :: "path \<Rightarrow> path \<Rightarrow> path list" where
  "parentChain cwd path =
     (let segs = normalizeSegments
                   ((if isAbsolute path then [] else segments cwd) @ segments path)
      in map (\<lambda>n. Path True (take n segs)) (rev [0..<length segs]))"

definition findRootUpward :: "configFiles \<Rightarrow> path \<Rightarrow> path \<Rightarrow> path option" where
  "findRootUpward files cwd path =
     List.find (isProjectRoot files) (path # parentChain cwd path)"

text \<open>A file system with one project, in the directory \<^verbatim>\<open>/a\<close>.\<close>

definition projectInA :: configFiles where
  "projectInA path =
     (if path = Path True [''a''] then Some [JObj [(''kind'', JStr ''Project'')]] else None)"

section \<open>The telemetry handler (\<^verbatim>\<open>AnalyticsHandler\<close>)\<close>

record SystemInfo =
  gardenVersion :: string
  platform :: string
  platformVersion :: string

text \<open>The object that \<^verbatim>\<open>initialize\<close> stores in \<^verbatim>\<open>this.projectMetadata\<close>.\<close>

record ProjectMetadata =
  numberOfModules :: nat
  modulesTypes :: "string list"
  numberOfTasks :: nat
  numberOfServices :: nat
  numberOfTests :: nat

record AnalyticsGlobalConfig =
  userId :: string
  firstRun :: bool
  optedIn :: bool
  showOptInMessage :: bool

text \<open>The members of \<^verbatim>\<open>AnalyticsType\<close> that the handler names.\<close>

datatype AnalyticsType =
  COMMAND | TASK | CALL_API | MODULE_CONFIG_ERROR | PROJECT_CONFIG_ERROR | VALIDATION_ERROR

text \<open>
  The properties of an event are an object; it is kept like the objects of a document, as
  an association list read by name.
\<close>

datatype propertyValue =
    PString string
  | PBoolean bool
  | PStrings "string list"
  | PSystem SystemInfo
  | PMetadata "ProjectMetadata option"

type_synonym properties = "(string \<times> propertyValue) list"

record AnalyticsEvent =
  eventType :: AnalyticsType
  eventProperties :: properties

record SegmentEvent =
  segmentUserId :: string
  event :: AnalyticsType
  properties :: properties

text \<open>
  The state of the handler. \<open>segment\<close> is the client of the tracking service, kept as the
  list of the events handed to its \<^verbatim>\<open>track\<close> method; the constructor always creates it.
\<close>

record AnalyticsHandler =
  segment :: "SegmentEvent list"
  globalConfig :: AnalyticsGlobalConfig
  projectId :: string
  systemConfig :: SystemInfo
  isCI :: bool
  sessionId :: string
  projectMetadata :: "ProjectMetadata option"

text \<open>
  What \<^verbatim>\<open>processEvent\<close> reads of the payload of an event: \<^verbatim>\<open>payload.batchId\<close>,
  \<^verbatim>\<open>payload.name\<close> and \<^verbatim>\<open>payload.type\<close>.
\<close>

record TaskPayload =
  payloadBatchId :: string
  payloadName :: string
  payloadType :: string


definition hasOptedIn :: "AnalyticsHandler \<Rightarrow> bool" where
  "hasOptedIn h = optedIn (globalConfig h)"

definition getBasicAnalyticsProperties :: "AnalyticsHandler \<Rightarrow> properties" where
  "getBasicAnalyticsProperties h =
     [(''projectId'', PString (projectId h)),
      (''system'', PSystem (systemConfig h)),
      (''isCI'', PBoolean (isCI h)),
      (''sessionId'', PString (sessionId h)),
      (''projectMetadata'', PMetadata (projectMetadata h))]"

text \<open>
  \<^verbatim>\<open>
  private track(event: AnalyticsEvent) {
    if (this.segment && this.hasOptedIn()) {
      const segmentEvent = {
        userId: this.globalConfig.userId,
        event: event.type,
        properties: { ...this.getBasicAnalyticsProperties(), ...event.properties },
      }
      ... this.segment.track(segmentEvent, ...)
    }
    return false
  }
  \<close>
\<close>

definition track :: "AnalyticsHandler \<Rightarrow> AnalyticsEvent \<Rightarrow> AnalyticsHandler" where
  "track h ev =
     (if hasOptedIn h
      then h\<lparr>segment := segment h @
             [\<lparr>segmentUserId = userId (globalConfig h),
               event = eventType ev,
               properties = AList.merge (getBasicAnalyticsProperties h) (eventProperties ev)\<rparr>]\<rparr>
      else h)"


text \<open>
  \<^verbatim>\<open>
  trackTask(batchId: string, taskName: string, taskType: string, taskStatus: string) {
    const hashedTaskName = hasha(taskName, { algorithm: "sha256" })
    const properties = {
      batchId, taskName: hashedTaskName, taskType,
      ...this.getBasicAnalyticsProperties(),
      taskStatus,
    }
    return this.track({ type: AnalyticsType.TASK, properties })
  }
  \<close>
\<close>

definition trackTask ::
  "(string \<Rightarrow> string) \<Rightarrow> AnalyticsHandler \<Rightarrow> string \<Rightarrow> string \<Rightarrow> string \<Rightarrow> string \<Rightarrow>
     AnalyticsHandler" where
  "trackTask hasha h batchId taskName taskType taskStatus =
     (let hashedTaskName = hasha taskName;
          properties =
            AList.merge
              (AList.merge
                 [(''batchId'', PString batchId),
                  (''taskName'', PString hashedTaskName),
                  (''taskType'', PString taskType)]
                 (getBasicAnalyticsProperties h))
              [(''taskStatus'', PString taskStatus)]
      in track h \<lparr>eventType = TASK, eventProperties = properties\<rparr>)"





text \<open>
  \<^verbatim>\<open>
  static isSupportedEvent(name: EventName, _event: Events[EventName]) {
    const supportedEventsKeys = ["taskPending", "taskProcessing", "taskComplete", "taskError"]
    return supportedEventsKeys.includes(name)
  }
  \<close>
\<close>

definition isSupportedEvent :: "string \<Rightarrow> bool" where
  "isSupportedEvent name =
     (name \<in> set [''taskPending'', ''taskProcessing'', ''taskComplete'', ''taskError''])"

text \<open>
  \<^verbatim>\<open>
  private processEvent<T extends EventName>(name: T, payload: Events[T]) {
    if (AnalyticsHandler.isSupportedEvent(name, payload)) {
      this.trackTask(payload.batchId, payload.name, payload.type, name)
    }
  }
  \<close>
\<close>

definition processEvent ::
  "(string \<Rightarrow> string) \<Rightarrow> AnalyticsHandler \<Rightarrow> string \<Rightarrow> TaskPayload \<Rightarrow> AnalyticsHandler" where
  "processEvent hasha h name payload =
     (if isSupportedEvent name
      then trackTask hasha h (payloadBatchId payload) (payloadName payload)
             (payloadType payload) name
      else h)"

text \<open>
  \<^verbatim>\<open>this.garden.events.onAny((name, payload) => this.processEvent(name, payload))\<close>:
  the listener receives every event of the bus, here the events of a run in their order.
\<close>

definition onAny ::
  "(string \<Rightarrow> string) \<Rightarrow> AnalyticsHandler \<Rightarrow> (string \<times> TaskPayload) list \<Rightarrow> AnalyticsHandler" where
  "onAny hasha h events =
     fold (\<lambda>(name, payload) h'. processEvent hasha h' name payload) events h"

text \<open>A handler whose user has opted in, and one whose user has not.\<close>

definition optedInHandler :: AnalyticsHandler where
  "optedInHandler =
     \<lparr>segment = [],
      globalConfig = \<lparr>userId = ''u1'', firstRun = False, optedIn = True, showOptInMessage = False\<rparr>,
      projectId = ''unset'',
      systemConfig = \<lparr>gardenVersion = ''0.11.0'', platform = ''linux'', platformVersion = ''5''\<rparr>,
      isCI = False,
      sessionId = ''s1'',
      projectMetadata = None\<rparr>"

section \<open>The words of the claims\<close>

text \<open>The values that \<open>iterate\<close> accepts.\<close>

fun isIterable :: "json \<Rightarrow> bool" where
  "isIterable (JArr xs) = True"
| "isIterable (JStr s) = True"
| "isIterable v = False"

fun isObject :: "json \<Rightarrow> bool" where
  "isObject (JObj kvs) = True"
| "isObject v = False"

text \<open>
  The provider lists that \<^verbatim>\<open>removeEnvironmentDefaults\<close> can concatenate: when the defaults
  hold providers, these and the providers of the spec are iterable.
\<close>

definition providersMergeable :: "json \<Rightarrow> json \<Rightarrow> bool" where
  "providersMergeable spec defaults =
     (case truthyProp defaults ''providers'' of
        None \<Rightarrow> True
      | Some providers \<Rightarrow>
          isIterable (orElse (getProp spec ''providers'') (JArr [])) \<and> isIterable providers)"

text \<open>
  The rename of the legacy provider as the specification words it: a provider named
  \<^verbatim>\<open>local-openfaas\<close> is renamed to \<^verbatim>\<open>openfaas\<close> and keeps its other fields; the providers
  list of an environment, or of the project, has each of its providers renamed.
\<close>

definition renamedProvider :: "json \<Rightarrow> json" where
  "renamedProvider provider =
     (if getProp provider ''name'' = Some (JStr ''local-openfaas'')
      then setProp provider ''name'' (JStr ''openfaas'') else provider)"

definition renamedProvidersOf :: "json \<Rightarrow> json" where
  "renamedProvidersOf v =
     (case getProp v ''providers'' of
        Some (JArr providers) \<Rightarrow> setProp v ''providers'' (JArr (map renamedProvider providers))
      | _ \<Rightarrow> v)"

text \<open>
  The shape that the rename needs: a providers field is missing, falsy, or a list without
  \<^verbatim>\<open>null\<close>; the environments field is a list of such environments, none of them \<^verbatim>\<open>null\<close>.
\<close>

definition providersRenameable :: "json \<Rightarrow> bool" where
  "providersRenameable v =
     (case truthyProp v ''providers'' of
        None \<Rightarrow> True
      | Some (JArr providers) \<Rightarrow> JNull \<notin> set providers
      | Some _ \<Rightarrow> False)"

definition environmentsRenameable :: "json \<Rightarrow> bool" where
  "environmentsRenameable spec =
     (case getProp spec ''environments'' of
        Some (JArr envs) \<Rightarrow> list_all (\<lambda>env. env \<noteq> JNull \<and> providersRenameable env) envs
      | _ \<Rightarrow> False)"

text \<open>
  A spec on which the rename has nothing left to do: no provider it would visit is \<^verbatim>\<open>null\<close>
  or still carries the legacy name.
\<close>

definition providerSettled :: "json \<Rightarrow> bool" where
  "providerSettled provider \<longleftrightarrow>
     provider \<noteq> JNull \<and> getProp provider ''name'' \<noteq> Some (JStr ''local-openfaas'')"

definition providersSettled :: "json \<Rightarrow> bool" where
  "providersSettled v =
     (case truthyProp v ''providers'' of
        None \<Rightarrow> True
      | Some (JArr providers) \<Rightarrow> list_all providerSettled providers
      | Some _ \<Rightarrow> False)"

definition settled :: "json \<Rightarrow> bool" where
  "settled spec \<longleftrightarrow>
     spec \<noteq> JNull \<and> getProp spec ''type'' \<noteq> Some (JStr ''local-openfaas'') \<and>
     (getProp spec ''kind'' = Some (JStr ''Project'') \<longrightarrow>
        (case getProp spec ''environments'' of
           Some (JArr envs) \<Rightarrow> list_all (\<lambda>env. env \<noteq> JNull \<and> providersSettled env) envs
         | _ \<Rightarrow> False) \<and>
        providersSettled spec)"

text \<open>
  The events that a call hands to the tracking service, and the properties of a task event
  as the specification words them: the digest of the task name in the place of the name,
  and the identifier of the project.
\<close>

definition sent :: "AnalyticsHandler \<Rightarrow> AnalyticsHandler \<Rightarrow> SegmentEvent list" where
  "sent h h' = drop (length (segment h)) (segment h')"



section \<open>Facts about values\<close>

lemma map_of_spreadInto:
  "map_of (spreadInto acc v) k =
     (case map_of (ownProps v) k of Some w \<Rightarrow> Some w | None \<Rightarrow> map_of acc k)"
  by (simp add: spreadInto_def merge_conv' map_add_def)

lemma truthyProp_SomeD:
  "truthyProp v k = Some w \<Longrightarrow> (\<exists>kvs. v = JObj kvs \<and> map_of kvs k = Some w) \<and> truthy w"
  by (cases v) (auto simp: truthyProp_def split: option.splits if_splits)

lemma getProp_SomeD: "getProp v k = Some w \<Longrightarrow> \<exists>kvs. v = JObj kvs \<and> map_of kvs k = Some w"
  by (cases v) auto

lemma truthyProp_obj:
  "truthyProp (JObj kvs) k =
     (case map_of kvs k of None \<Rightarrow> None | Some w \<Rightarrow> if truthy w then Some w else None)"
  by (simp add: truthyProp_def)

text \<open>An object and a list are truthy, whatever they hold.\<close>

lemma truthyProp_object: "getProp v k = Some (JObj kvs) \<Longrightarrow> truthyProp v k = Some (JObj kvs)"
  by (simp add: truthyProp_def)

lemma truthyProp_array: "getProp v k = Some (JArr xs) \<Longrightarrow> truthyProp v k = Some (JArr xs)"
  by (simp add: truthyProp_def)

lemma isObject_setProp: "isObject (setProp v k w) = isObject v"
  by (cases v) auto

lemma getProp_setProp:
  "getProp (setProp v k w) k' = (if k' = k \<and> isObject v then Some w else getProp v k')"
  by (cases v) (auto simp: update_conv')

lemma getProp_setProp_other: "k' \<noteq> k \<Longrightarrow> getProp (setProp v k w) k' = getProp v k'"
  by (simp add: getProp_setProp)

lemma setProp_triv: "getProp v k = Some w \<Longrightarrow> setProp v k w = v"
  by (cases v) (auto simp: update_triv)

lemma setProp_null: "setProp v k w = JNull \<longleftrightarrow> v = JNull"
  by (cases v) auto

lemma iterate_Inl: "iterate v = Inl e \<longleftrightarrow> \<not> isIterable v \<and> e = TypeError"
  by (cases v) auto

lemma iterate_Inr: "iterate v = Inr xs \<Longrightarrow> isIterable v"
  by (cases v) auto

section \<open>Facts about \<^verbatim>\<open>removeEnvironmentDefaults\<close>\<close>

lemma mergeProviders_obj:
  "mergeProviders (JObj kvs) defaults =
     (if providersMergeable (JObj kvs) defaults
      then Inr (case truthyProp defaults ''providers'' of
                  None \<Rightarrow> JObj kvs
                | Some providers \<Rightarrow>
                    JObj (AList.update ''providers''
                      (JArr (projr (iterate (orElse (map_of kvs ''providers'') (JArr []))) @
                             projr (iterate providers))) kvs))
      else Inl TypeError)"
  by (auto simp: mergeProviders_def providersMergeable_def iterate_Inl dest: iterate_Inr
      split: option.splits sum.splits)

lemma removeEnvironmentDefaults_frame:
  assumes "removeEnvironmentDefaults spec path = Inr spec'"
  shows "spec' \<noteq> JNull"
    and "k \<notin> {''varfile'', ''variables'', ''providers'', ''environmentDefaults''} \<Longrightarrow>
         getProp spec' k = getProp spec k"
    and "removeEnvironmentDefaults spec' path = Inr spec'"
proof -
  have "spec' \<noteq> JNull \<and>
        (k \<notin> {''varfile'', ''variables'', ''providers'', ''environmentDefaults''} \<longrightarrow>
           getProp spec' k = getProp spec k) \<and>
        removeEnvironmentDefaults spec' path = Inr spec'"
  proof (cases "truthyProp spec ''environmentDefaults''")
    case None
    with assms show ?thesis
      by (auto simp: removeEnvironmentDefaults_def split: if_splits)
  next
    case (Some defaults)
    then obtain kvs where spec: "spec = JObj kvs"
      by (auto dest: truthyProp_SomeD)
    have "spec' \<noteq> JNull \<and> truthyProp spec' ''environmentDefaults'' = None \<and>
        (k \<notin> {''varfile'', ''variables'', ''providers'', ''environmentDefaults''} \<longrightarrow>
           getProp spec' k = getProp spec k)"
      using assms Some unfolding spec
      by (auto simp: removeEnvironmentDefaults_def hoistVarfile_def mergeVariables_def
          mergeProviders_obj truthyProp_obj update_conv' delete_conv'
          split: option.splits if_splits)
    then show ?thesis
      by (simp add: removeEnvironmentDefaults_def)
  qed
  then show "spec' \<noteq> JNull"
    and "k \<notin> {''varfile'', ''variables'', ''providers'', ''environmentDefaults''} \<Longrightarrow>
         getProp spec' k = getProp spec k"
    and "removeEnvironmentDefaults spec' path = Inr spec'"
    by simp_all
qed

section \<open>Facts about \<^verbatim>\<open>removeLocalOpenFaas\<close>\<close>

lemma renameProvider_eq:
  "renameProvider p = (if p = JNull then Inl TypeError else Inr (renamedProvider p))"
  by (simp add: renameProvider_def renamedProvider_def)

lemma renameProviders_eq:
  "renameProviders ps =
     (if JNull \<in> set ps then Inl TypeError else Inr (map renamedProvider ps))"
  by (induction ps) (auto simp: renameProvider_eq)

lemma renameProvidersOf_eq:
  "renameProvidersOf v =
     (if providersRenameable v then Inr (renamedProvidersOf v) else Inl TypeError)"
proof (cases "truthyProp v ''providers''")
  case None
  then show ?thesis
    by (cases v)
       (auto simp: renameProvidersOf_def providersRenameable_def renamedProvidersOf_def
         truthyProp_def split: option.splits if_splits json.splits)
next
  case (Some w)
  then show ?thesis
    by (cases v; cases w)
       (auto simp: renameProvidersOf_def providersRenameable_def renamedProvidersOf_def
         truthyProp_def renameProviders_eq split: option.splits if_splits)
qed

lemma renameEnvironments_eq:
  "renameEnvironments envs =
     (if list_all (\<lambda>env. env \<noteq> JNull \<and> providersRenameable env) envs
      then Inr (map renamedProvidersOf envs) else Inl TypeError)"
  by (induction envs) (auto simp: renameEnvironment_def renameProvidersOf_eq)

lemma renamedProvider_fields:
  "getProp (renamedProvider p) k =
     (if k = ''name'' \<and> getProp p ''name'' = Some (JStr ''local-openfaas'')
      then Some (JStr ''openfaas'') else getProp p k)"
  by (cases p) (auto simp: renamedProvider_def update_conv')

lemma renamedProvidersOf_fields:
  "getProp (renamedProvidersOf v) k =
     (if k = ''providers''
      then (case getProp v ''providers'' of
              Some (JArr providers) \<Rightarrow> Some (JArr (map renamedProvider providers))
            | other \<Rightarrow> other)
      else getProp v k)"
  by (cases v) (auto simp: renamedProvidersOf_def update_conv' split: option.splits json.splits)

lemma renamedProvidersOf_null: "renamedProvidersOf v = JNull \<longleftrightarrow> v = JNull"
  by (cases v) (auto simp: renamedProvidersOf_def split: option.splits json.splits)

lemma providersRenameable_setProp:
  "k \<noteq> ''providers'' \<Longrightarrow> providersRenameable (setProp v k w) = providersRenameable v"
  by (cases v) (auto simp: providersRenameable_def truthyProp_def update_conv')

lemma removeLocalOpenFaas_eq:
  "removeLocalOpenFaas spec =
     (if spec = JNull then Inl TypeError
      else
        let spec1 = (if getProp spec ''type'' = Some (JStr ''local-openfaas'')
                     then setProp spec ''type'' (JStr ''openfaas'') else spec)
        in if getProp spec ''kind'' \<noteq> Some (JStr ''Project'') then Inr spec1
           else if environmentsRenameable spec \<and> providersRenameable spec
             then Inr (renamedProvidersOf (setProp spec1 ''environments''
                    (case getProp spec ''environments'' of
                       Some (JArr envs) \<Rightarrow> JArr (map renamedProvidersOf envs) | _ \<Rightarrow> JNull)))
             else Inl TypeError)"
  by (cases spec)
     (auto simp: removeLocalOpenFaas_def Let_def environmentsRenameable_def renameEnvironments_eq
       renameProvidersOf_eq providersRenameable_setProp getProp_setProp_other
       simp del: setProp.simps
       split: option.splits json.splits)

lemma renamedProvider_settled: "providerSettled p \<Longrightarrow> renamedProvider p = p"
  by (simp add: providerSettled_def renamedProvider_def)

lemma map_renamedProvider_settled:
  "list_all providerSettled ps \<Longrightarrow> map renamedProvider ps = ps"
  by (induction ps) (auto simp: renamedProvider_settled)

lemma providerSettled_renamed: "p \<noteq> JNull \<Longrightarrow> providerSettled (renamedProvider p)"
  by (cases p) (auto simp: providerSettled_def renamedProvider_def update_conv')

lemma list_all_providerSettled_renamed:
  "JNull \<notin> set ps \<Longrightarrow> list_all providerSettled (map renamedProvider ps)"
  by (induction ps) (auto simp: providerSettled_renamed)

lemma providersSettled_renameable: "providersSettled v \<Longrightarrow> providersRenameable v"
  by (auto simp: providersSettled_def providersRenameable_def providerSettled_def list_all_iff
      split: option.splits json.splits)

lemma renamedProvidersOf_settled: "providersSettled v \<Longrightarrow> renamedProvidersOf v = v"
  by (cases v)
     (auto simp: providersSettled_def renamedProvidersOf_def truthyProp_def
       map_renamedProvider_settled update_triv split: option.splits json.splits if_splits)

lemma providersSettled_renamed:
  "providersRenameable v \<Longrightarrow> providersSettled (renamedProvidersOf v)"
  by (cases v)
     (auto simp: providersSettled_def providersRenameable_def renamedProvidersOf_def
       truthyProp_def list_all_providerSettled_renamed update_conv'
       split: option.splits json.splits if_splits)

lemma providersSettled_setProp:
  "k \<noteq> ''providers'' \<Longrightarrow> providersSettled (setProp v k w) = providersSettled v"
  by (cases v) (auto simp: providersSettled_def truthyProp_def update_conv')

text \<open>A settled spec is a fixed point of the rename.\<close>

lemma settled_fixed:
  assumes "settled spec"
  shows "removeLocalOpenFaas spec = Inr spec"
proof (cases "getProp spec ''kind'' = Some (JStr ''Project'')")
  case False
  with assms show ?thesis
    by (simp add: removeLocalOpenFaas_eq settled_def)
next
  case True
  with assms obtain envs where envs: "getProp spec ''environments'' = Some (JArr envs)"
    and all: "list_all (\<lambda>env. env \<noteq> JNull \<and> providersSettled env) envs"
    and ps: "providersSettled spec"
    by (auto simp: settled_def split: option.splits json.splits)
  have m: "map renamedProvidersOf envs = envs"
    using all by (induction envs) (auto simp: renamedProvidersOf_settled)
  have r: "environmentsRenameable spec"
    using all envs
    by (auto simp: environmentsRenameable_def list_all_iff providersSettled_renameable)
  show ?thesis
    using assms True envs m r ps
    by (simp add: removeLocalOpenFaas_eq settled_def setProp_triv renamedProvidersOf_settled
        providersSettled_renameable del: setProp.simps)
qed

text \<open>What the rename returns is settled.\<close>

lemma renamed_settled:
  assumes "removeLocalOpenFaas spec = Inr spec'"
  shows "settled spec'"
proof (cases "\<exists>kvs. spec = JObj kvs")
  case False
  with assms show ?thesis
    by (cases spec) (auto simp: removeLocalOpenFaas_eq settled_def split: if_splits)
next
  case True
  then obtain kvs where spec: "spec = JObj kvs" by blast
  have envs: "list_all (\<lambda>env. env \<noteq> JNull \<and> providersRenameable env) envs \<Longrightarrow>
      list_all (\<lambda>env. env \<noteq> JNull \<and> providersSettled env) (map renamedProvidersOf envs)"
    for envs
    by (induction envs) (auto simp: providersSettled_renamed renamedProvidersOf_null)
  show ?thesis
    using assms unfolding removeLocalOpenFaas_eq spec
    by (auto simp: Let_def settled_def renamedProvidersOf_fields getProp_setProp
        isObject_setProp environmentsRenameable_def envs providersSettled_renamed
        providersRenameable_setProp setProp_null renamedProvidersOf_null
        simp del: setProp.simps split: option.splits json.splits if_splits)
qed

lemma settled_after_defaults:
  assumes "settled spec" and "removeEnvironmentDefaults spec path = Inr spec'"
    and "getProp spec' ''kind'' = Some (JStr ''Project'') \<longrightarrow> providersSettled spec'"
  shows "settled spec'"
  using assms(1,3) removeEnvironmentDefaults_frame(1)[OF assms(2)]
    removeEnvironmentDefaults_frame(2)[OF assms(2), of "''type''"]
    removeEnvironmentDefaults_frame(2)[OF assms(2), of "''kind''"]
    removeEnvironmentDefaults_frame(2)[OF assms(2), of "''environments''"]
  by (simp add: settled_def)

section \<open>Facts about the telemetry handler\<close>

lemma sent_track:
  "sent h (track h ev) =
     (if hasOptedIn h
      then [\<lparr>segmentUserId = userId (globalConfig h), event = eventType ev,
              properties = AList.merge (getBasicAnalyticsProperties h) (eventProperties ev)\<rparr>]
      else [])"
  by (simp add: sent_def track_def)

lemma trackTask_sent:
  "sent h (trackTask hasha h batchId taskName taskType taskStatus) =
     (if hasOptedIn h
      then [\<lparr>segmentUserId = userId (globalConfig h), event = TASK,
              properties =
                AList.merge (getBasicAnalyticsProperties h)
                  (AList.merge
                    (AList.merge
                      [(''batchId'', PString batchId),
                       (''taskName'', PString (hasha taskName)),
                       (''taskType'', PString taskType)]
                      (getBasicAnalyticsProperties h))
                    [(''taskStatus'', PString taskStatus)])\<rparr>]
      else [])"
  by (simp add: trackTask_def Let_def sent_track)

lemma isSupportedEvent_iff:
  "isSupportedEvent name \<longleftrightarrow>
     name \<in> {''taskPending'', ''taskProcessing'', ''taskComplete'', ''taskError''}"
  by (auto simp: isSupportedEvent_def)

lemma hasOptedIn_track: "hasOptedIn (track h ev) = hasOptedIn h"
  by (simp add: track_def hasOptedIn_def)

lemma hasOptedIn_processEvent: "hasOptedIn (processEvent hasha h name payload) = hasOptedIn h"
  by (simp add: processEvent_def trackTask_def Let_def hasOptedIn_track)

lemma length_segment_processEvent:
  "length (segment (processEvent hasha h name payload)) =
     length (segment h) + (if hasOptedIn h \<and> isSupportedEvent name then 1 else 0)"
  by (simp add: processEvent_def trackTask_def Let_def track_def)

lemma length_segment_onAny:
  "length (segment (onAny hasha h events)) =
     length (segment h) +
     (if hasOptedIn h
      then length (filter (\<lambda>(name, payload). isSupportedEvent name) events) else 0)"
  unfolding onAny_def
proof (induction events arbitrary: h)
  case Nil
  then show ?case by simp
next
  case (Cons e events)
  obtain name payload where e: "e = (name, payload)" by (cases e)
  show ?case
    by (simp add: e Cons.IH length_segment_processEvent hasOptedIn_processEvent)
qed

section \<open>The claims about \<^verbatim>\<open>removeEnvironmentDefaults\<close>\<close>

text \<open>
  Claim C1, as amended. The claim tells a spec that has a top-level \<^verbatim>\<open>varfile\<close> field from one
  that has none; the code tests \<^verbatim>\<open>if (spec.varfile)\<close>, which tells a truthy value from a
  missing or falsy one (\<^verbatim>\<open>null\<close>, \<^verbatim>\<open>false\<close>, \<^verbatim>\<open>0\<close>, the empty string), and it tests
  \<^verbatim>\<open>environmentDefaults\<close> and its \<^verbatim>\<open>varfile\<close> the same way. For every spec whose
  \<^verbatim>\<open>environmentDefaults\<close> is truthy and holds a truthy \<^verbatim>\<open>varfile\<close>: when the top-level
  \<^verbatim>\<open>varfile\<close> is truthy, \<^verbatim>\<open>removeEnvironmentDefaults\<close> fails with the configuration error
  and returns no rewritten spec; when the top-level \<^verbatim>\<open>varfile\<close> is missing or falsy, the
  rewrite returns a spec whose top-level \<^verbatim>\<open>varfile\<close> is the one of the defaults, unless the
  provider lists it has to concatenate are not iterable, which is a \<^verbatim>\<open>TypeError\<close>.
\<close>

theorem removeEnvironmentDefaults_varfile:
  assumes "truthyProp spec ''environmentDefaults'' = Some defaults"
    and "truthyProp defaults ''varfile'' = Some varfile"
  shows "(truthyProp spec ''varfile'' \<noteq> None \<longrightarrow>
            removeEnvironmentDefaults spec path = Inl (ConfigurationError path)) \<and>
         (truthyProp spec ''varfile'' = None \<longrightarrow>
            (if providersMergeable spec defaults
             then \<exists>spec'. removeEnvironmentDefaults spec path = Inr spec' \<and>
                          getProp spec' ''varfile'' = Some varfile
             else removeEnvironmentDefaults spec path = Inl TypeError))"
proof -
  from assms(1) obtain kvs where spec: "spec = JObj kvs"
    by (auto dest: truthyProp_SomeD)
  show ?thesis
    using assms unfolding spec
    by (auto simp: removeEnvironmentDefaults_def hoistVarfile_def mergeVariables_def
        mergeProviders_obj providersMergeable_def truthyProp_obj update_conv' delete_conv'
        split: option.splits if_splits)
qed

text \<open>
  The theorem at a spec with both varfiles, which fails, and at a spec with the varfile of
  the defaults only, which is rewritten.
\<close>

theorem removeEnvironmentDefaults_varfile_witness:
  "removeEnvironmentDefaults
     (JObj [(''environmentDefaults'', JObj [(''varfile'', JStr ''defaults.env'')]),
            (''varfile'', JStr ''garden.env'')])
     ''garden.yml'' = Inl (ConfigurationError ''garden.yml'') \<and>
   (\<exists>spec'. removeEnvironmentDefaults
               (JObj [(''environmentDefaults'', JObj [(''varfile'', JStr ''defaults.env'')])])
               ''garden.yml'' = Inr spec' \<and>
            getProp spec' ''varfile'' = Some (JStr ''defaults.env''))"
proof -
  let ?defaults = "JObj [(''varfile'', JStr ''defaults.env'')]"
  let ?both = "JObj [(''environmentDefaults'', ?defaults), (''varfile'', JStr ''garden.env'')]"
  let ?one = "JObj [(''environmentDefaults'', ?defaults)]"
  have d: "truthyProp ?defaults ''varfile'' = Some (JStr ''defaults.env'')"
    by (simp add: truthyProp_def)
  have b: "truthyProp ?both ''environmentDefaults'' = Some ?defaults"
    by (simp add: truthyProp_def)
  have o: "truthyProp ?one ''environmentDefaults'' = Some ?defaults"
    by (simp add: truthyProp_def)
  show ?thesis
    using removeEnvironmentDefaults_varfile [OF b d, of "''garden.yml''"]
      removeEnvironmentDefaults_varfile [OF o d, of "''garden.yml''"]
    by (simp add: truthyProp_def providersMergeable_def)
qed

text \<open>
  The claim as it is written fails at a spec whose top-level \<^verbatim>\<open>varfile\<close> is the empty string:
  the field is there, and the rewrite raises nothing and overwrites it.
\<close>

theorem removeEnvironmentDefaults_varfile_counterexample:
  "getProp (JObj [(''environmentDefaults'', JObj [(''varfile'', JStr ''defaults.env'')]),
                  (''varfile'', JStr [])]) ''varfile'' = Some (JStr []) \<and>
   removeEnvironmentDefaults
     (JObj [(''environmentDefaults'', JObj [(''varfile'', JStr ''defaults.env'')]),
            (''varfile'', JStr [])])
     ''garden.yml'' = Inr (JObj [(''varfile'', JStr ''defaults.env'')])"
  by (simp add: removeEnvironmentDefaults_def hoistVarfile_def mergeVariables_def
      mergeProviders_def truthyProp_def)





section \<open>The claim about \<^verbatim>\<open>applyFlatStyle\<close>\<close>

text \<open>
  Claim C3, as amended. For every raw spec (a document that \<^verbatim>\<open>readYaml\<close> keeps is not
  \<^verbatim>\<open>null\<close>): when its \<^verbatim>\<open>project\<close> value is truthy, \<^verbatim>\<open>applyFlatStyle\<close> returns an object that
  holds every own field of that wrapper, and \<^verbatim>\<open>kind: "Project"\<close> unless the wrapper has a
  \<^verbatim>\<open>kind\<close> field of its own, which then stays; when the \<^verbatim>\<open>project\<close> value is missing or falsy
  and the \<^verbatim>\<open>module\<close> value is truthy, the same holds with the \<^verbatim>\<open>module\<close> wrapper and
  \<^verbatim>\<open>kind: "Module"\<close>; every other spec is returned unchanged.
\<close>

theorem applyFlatStyle_hoists:
  "(\<forall>wrapper. truthyProp spec ''project'' = Some wrapper \<longrightarrow>
      (\<exists>flat. applyFlatStyle spec = Inr (JObj flat) \<and>
         (\<forall>k. map_of flat k =
            (case map_of (ownProps wrapper) k of
               Some v \<Rightarrow> Some v
             | None \<Rightarrow> if k = ''kind'' then Some (JStr ''Project'') else None)))) \<and>
   (\<forall>wrapper. truthyProp spec ''project'' = None \<and> truthyProp spec ''module'' = Some wrapper \<longrightarrow>
      (\<exists>flat. applyFlatStyle spec = Inr (JObj flat) \<and>
         (\<forall>k. map_of flat k =
            (case map_of (ownProps wrapper) k of
               Some v \<Rightarrow> Some v
             | None \<Rightarrow> if k = ''kind'' then Some (JStr ''Module'') else None)))) \<and>
   (spec \<noteq> JNull \<and> truthyProp spec ''project'' = None \<and> truthyProp spec ''module'' = None \<longrightarrow>
      applyFlatStyle spec = Inr spec)"
proof (cases "spec = JNull")
  case True
  then show ?thesis
    by (simp add: truthyProp_def)
next
  case False
  then show ?thesis
    by (auto simp: applyFlatStyle_def map_of_spreadInto split: option.splits)
qed

text \<open>
  The theorem at a spec with a \<^verbatim>\<open>project\<close> wrapper, at one with a \<^verbatim>\<open>module\<close> wrapper and at a
  spec that is flat already.
\<close>

theorem applyFlatStyle_hoists_witness:
  "(\<exists>flat. applyFlatStyle (JObj [(''project'', JObj [(''name'', JStr ''demo'')])]) =
             Inr (JObj flat) \<and>
           map_of flat ''kind'' = Some (JStr ''Project'') \<and>
           map_of flat ''name'' = Some (JStr ''demo'') \<and>
           map_of flat ''project'' = None) \<and>
   (\<exists>flat. applyFlatStyle (JObj [(''module'', JObj [(''type'', JStr ''container'')])]) =
             Inr (JObj flat) \<and>
           map_of flat ''kind'' = Some (JStr ''Module'') \<and>
           map_of flat ''type'' = Some (JStr ''container'')) \<and>
   applyFlatStyle (JObj [(''kind'', JStr ''Module''), (''name'', JStr ''api'')]) =
     Inr (JObj [(''kind'', JStr ''Module''), (''name'', JStr ''api'')])"
proof -
  let ?p = "JObj [(''project'', JObj [(''name'', JStr ''demo'')])]"
  let ?m = "JObj [(''module'', JObj [(''type'', JStr ''container'')])]"
  let ?f = "JObj [(''kind'', JStr ''Module''), (''name'', JStr ''api'')]"
  have p: "truthyProp ?p ''project'' = Some (JObj [(''name'', JStr ''demo'')])"
    by (simp add: truthyProp_def)
  have m: "truthyProp ?m ''project'' = None \<and>
           truthyProp ?m ''module'' = Some (JObj [(''type'', JStr ''container'')])"
    by (simp add: truthyProp_def)
  have f: "?f \<noteq> JNull \<and> truthyProp ?f ''project'' = None \<and> truthyProp ?f ''module'' = None"
    by (simp add: truthyProp_def)
  from applyFlatStyle_hoists [of ?p] p
  obtain flat where "applyFlatStyle ?p = Inr (JObj flat)"
    and "\<forall>k. map_of flat k =
           (case map_of (ownProps (JObj [(''name'', JStr ''demo'')])) k of
              Some v \<Rightarrow> Some v
            | None \<Rightarrow> if k = ''kind'' then Some (JStr ''Project'') else None)"
    by blast
  then have 1: "\<exists>flat. applyFlatStyle ?p = Inr (JObj flat) \<and>
           map_of flat ''kind'' = Some (JStr ''Project'') \<and>
           map_of flat ''name'' = Some (JStr ''demo'') \<and>
           map_of flat ''project'' = None"
    by simp
  from applyFlatStyle_hoists [of ?m] m
  obtain flat' where "applyFlatStyle ?m = Inr (JObj flat')"
    and "\<forall>k. map_of flat' k =
           (case map_of (ownProps (JObj [(''type'', JStr ''container'')])) k of
              Some v \<Rightarrow> Some v
            | None \<Rightarrow> if k = ''kind'' then Some (JStr ''Module'') else None)"
    by blast
  then have 2: "\<exists>flat. applyFlatStyle ?m = Inr (JObj flat) \<and>
           map_of flat ''kind'' = Some (JStr ''Module'') \<and>
           map_of flat ''type'' = Some (JStr ''container'')"
    by simp
  from applyFlatStyle_hoists [of ?f] f
  have 3: "applyFlatStyle ?f = Inr ?f"
    by blast
  from 1 2 3 show ?thesis
    by blast
qed

text \<open>
  The claim as it is written fails at a \<^verbatim>\<open>project\<close> wrapper that has a \<^verbatim>\<open>kind\<close> field: the
  spread writes the field of the wrapper over \<^verbatim>\<open>kind: "Project"\<close>, and the result is of kind
  \<^verbatim>\<open>Module\<close>.
\<close>

theorem applyFlatStyle_kind_counterexample:
  "applyFlatStyle
     (JObj [(''project'', JObj [(''kind'', JStr ''Module''), (''name'', JStr ''demo'')])]) =
     Inr (JObj [(''kind'', JStr ''Module''), (''name'', JStr ''demo'')]) \<and>
   getProp (JObj [(''kind'', JStr ''Module''), (''name'', JStr ''demo'')]) ''kind'' \<noteq>
     Some (JStr ''Project'')"
  by (simp add: applyFlatStyle_def truthyProp_def spreadInto_def)

section \<open>The claims about \<^verbatim>\<open>removeLocalOpenFaas\<close>\<close>



text \<open>
  Claim C10. For every spec of kind \<^verbatim>\<open>Project\<close> that has no \<^verbatim>\<open>environments\<close> field,
  \<^verbatim>\<open>removeLocalOpenFaas\<close> fails with a \<^verbatim>\<open>TypeError\<close> (the read of \<^verbatim>\<open>entries\<close> on
  \<^verbatim>\<open>undefined\<close>), and so does the rewrite of a spec that \<^verbatim>\<open>applyFlatStyle\<close> turns into such a
  spec, in particular of a spec whose \<^verbatim>\<open>project\<close> wrapper is an object with neither a
  \<^verbatim>\<open>kind\<close> nor an \<^verbatim>\<open>environments\<close> field; the failure is never the configuration error. The
  rename returns for a spec of kind \<^verbatim>\<open>Project\<close> only when its \<^verbatim>\<open>environments\<close> are a list.
\<close>

theorem project_without_environments_fails:
  "(getProp spec ''kind'' = Some (JStr ''Project'') \<and> getProp spec ''environments'' = None \<longrightarrow>
      removeLocalOpenFaas spec = Inl TypeError) \<and>
   (\<forall>flat. applyFlatStyle spec = Inr flat \<and> getProp flat ''kind'' = Some (JStr ''Project'') \<and>
        getProp flat ''environments'' = None \<longrightarrow>
      migrateSpec spec path = Inl TypeError) \<and>
   (\<forall>wrapper. getProp spec ''project'' = Some (JObj wrapper) \<and> map_of wrapper ''kind'' = None \<and>
        map_of wrapper ''environments'' = None \<longrightarrow>
      migrateSpec spec path = Inl TypeError) \<and>
   (\<forall>spec'. getProp spec ''kind'' = Some (JStr ''Project'') \<and>
        removeLocalOpenFaas spec = Inr spec' \<longrightarrow>
      (\<exists>envs. getProp spec ''environments'' = Some (JArr envs)))"
proof -
  have a: "removeLocalOpenFaas s = Inl TypeError"
    if "getProp s ''kind'' = Some (JStr ''Project'')" "getProp s ''environments'' = None" for s
    using that by (auto simp: removeLocalOpenFaas_eq environmentsRenameable_def)
  have b: "migrateSpec spec path = Inl TypeError"
    if "applyFlatStyle spec = Inr flat" "getProp flat ''kind'' = Some (JStr ''Project'')"
      "getProp flat ''environments'' = None" for flat
    using that a [of flat] by (simp add: migrateSpec_def)
  have c: "migrateSpec spec path = Inl TypeError"
    if w: "getProp spec ''project'' = Some (JObj wrapper)" "map_of wrapper ''kind'' = None"
      "map_of wrapper ''environments'' = None" for wrapper
  proof -
    let ?flat = "JObj (spreadInto [(''kind'', JStr ''Project'')] (JObj wrapper))"
    from w(1) obtain kvs where "spec = JObj kvs"
      by (auto dest: getProp_SomeD)
    with w have "applyFlatStyle spec = Inr ?flat"
      by (simp add: applyFlatStyle_def truthyProp_def)
    moreover have "getProp ?flat ''kind'' = Some (JStr ''Project'')"
      using w by (simp add: map_of_spreadInto)
    moreover have "getProp ?flat ''environments'' = None"
      using w by (simp add: map_of_spreadInto)
    ultimately show ?thesis by (rule b)
  qed
  have d: "\<exists>envs. getProp spec ''environments'' = Some (JArr envs)"
    if "getProp spec ''kind'' = Some (JStr ''Project'')" "removeLocalOpenFaas spec = Inr spec'"
    for spec'
    using that
    by (auto simp: removeLocalOpenFaas_eq environmentsRenameable_def Let_def
        split: if_splits option.splits json.splits)
  show ?thesis
    using a b c d by blast
qed

text \<open>
  The theorem at a flat project and at a wrapped project, both without environments.
\<close>

theorem project_without_environments_fails_witness:
  "removeLocalOpenFaas (JObj [(''kind'', JStr ''Project''), (''name'', JStr ''demo'')]) =
     Inl TypeError \<and>
   migrateSpec (JObj [(''project'', JObj [(''name'', JStr ''demo'')])]) ''garden.yml'' =
     Inl TypeError"
proof -
  let ?flat = "JObj [(''kind'', JStr ''Project''), (''name'', JStr ''demo'')]"
  let ?wrapped = "JObj [(''project'', JObj [(''name'', JStr ''demo'')])]"
  have f: "getProp ?flat ''kind'' = Some (JStr ''Project'') \<and> getProp ?flat ''environments'' = None"
    by simp
  have w: "getProp ?wrapped ''project'' = Some (JObj [(''name'', JStr ''demo'')]) \<and>
           map_of [(''name'', JStr ''demo'')] ''kind'' = None \<and>
           map_of [(''name'', JStr ''demo'')] ''environments'' = None"
    by simp
  from project_without_environments_fails [of ?flat "''garden.yml''"] f
  have 1: "removeLocalOpenFaas ?flat = Inl TypeError"
    by blast
  from project_without_environments_fails [of ?wrapped "''garden.yml''"] w
  have 2: "migrateSpec ?wrapped ''garden.yml'' = Inl TypeError"
    by blast
  from 1 2 show ?thesis
    by blast
qed

section \<open>The claim about the rewrite of one spec\<close>

text \<open>
  Claim C9, as amended. The rewrite of one spec (\<^verbatim>\<open>applyFlatStyle\<close>, then
  \<^verbatim>\<open>removeLocalOpenFaas\<close>, then \<^verbatim>\<open>removeEnvironmentDefaults\<close>) returns its own result
  unchanged when it is applied to it again, for every spec on which it succeeds and whose
  result has neither a truthy \<^verbatim>\<open>project\<close> nor a truthy \<^verbatim>\<open>module\<close> field (a wrapper inside a
  wrapper would be flattened by the second run) and, when the result is of kind
  \<^verbatim>\<open>Project\<close>, holds no provider at the top level that is \<^verbatim>\<open>null\<close> or still named
  \<^verbatim>\<open>local-openfaas\<close> (the providers of \<^verbatim>\<open>environmentDefaults\<close> are hoisted after the rename
  has run, so the first run does not visit them).
\<close>

theorem migrateSpec_idempotent:
  assumes "migrateSpec spec path = Inr spec'"
    and "truthyProp spec' ''project'' = None"
    and "truthyProp spec' ''module'' = None"
    and "getProp spec' ''kind'' = Some (JStr ''Project'') \<longrightarrow> providersSettled spec'"
  shows "migrateSpec spec' path = Inr spec'"
proof -
  from assms(1) obtain flat renamed where
    "removeLocalOpenFaas flat = Inr renamed"
    and d: "removeEnvironmentDefaults renamed path = Inr spec'"
    by (auto simp: migrateSpec_def split: sum.splits)
  then have "settled renamed"
    by (simp add: renamed_settled)
  then have "settled spec'"
    using d assms(4) by (rule settled_after_defaults)
  then have r: "removeLocalOpenFaas spec' = Inr spec'"
    by (rule settled_fixed)
  have "spec' \<noteq> JNull"
    using d by (rule removeEnvironmentDefaults_frame(1))
  then have f: "applyFlatStyle spec' = Inr spec'"
    using assms(2,3) by (simp add: applyFlatStyle_def)
  show ?thesis
    using f r removeEnvironmentDefaults_frame(3) [OF d] by (simp add: migrateSpec_def)
qed

text \<open>
  The theorem at a wrapped project with the legacy provider in an environment and with
  variables in its defaults: the second run returns the result of the first.
\<close>

theorem migrateSpec_idempotent_witness:
  "migrateSpec
     (JObj [(''project'',
             JObj [(''name'', JStr ''demo''),
                   (''environments'',
                    JArr [JObj [(''name'', JStr ''local''),
                                (''providers'', JArr [JObj [(''name'', JStr ''local-openfaas'')]])]]),
                   (''environmentDefaults'', JObj [(''variables'', JObj [(''a'', JNum 1)])])])])
     ''garden.yml'' =
     Inr (JObj [(''kind'', JStr ''Project''),
                (''environments'',
                 JArr [JObj [(''name'', JStr ''local''),
                             (''providers'', JArr [JObj [(''name'', JStr ''openfaas'')]])]]),
                (''name'', JStr ''demo''),
                (''variables'', JObj [(''a'', JNum 1)])]) \<and>
   migrateSpec
     (JObj [(''kind'', JStr ''Project''),
            (''environments'',
             JArr [JObj [(''name'', JStr ''local''),
                         (''providers'', JArr [JObj [(''name'', JStr ''openfaas'')]])]]),
            (''name'', JStr ''demo''),
            (''variables'', JObj [(''a'', JNum 1)])])
     ''garden.yml'' =
     Inr (JObj [(''kind'', JStr ''Project''),
                (''environments'',
                 JArr [JObj [(''name'', JStr ''local''),
                             (''providers'', JArr [JObj [(''name'', JStr ''openfaas'')]])]]),
                (''name'', JStr ''demo''),
                (''variables'', JObj [(''a'', JNum 1)])])"
proof -
  let ?spec =
    "JObj [(''project'',
            JObj [(''name'', JStr ''demo''),
                  (''environments'',
                   JArr [JObj [(''name'', JStr ''local''),
                               (''providers'', JArr [JObj [(''name'', JStr ''local-openfaas'')]])]]),
                  (''environmentDefaults'', JObj [(''variables'', JObj [(''a'', JNum 1)])])])]"
  let ?result =
    "JObj [(''kind'', JStr ''Project''),
           (''environments'',
            JArr [JObj [(''name'', JStr ''local''),
                        (''providers'', JArr [JObj [(''name'', JStr ''openfaas'')]])]]),
           (''name'', JStr ''demo''),
           (''variables'', JObj [(''a'', JNum 1)])]"
  have first: "migrateSpec ?spec ''garden.yml'' = Inr ?result"
    by (simp add: migrateSpec_def applyFlatStyle_def spreadInto_def removeLocalOpenFaas_def
        renameEnvironment_def renameProvidersOf_def renameProvider_def
        removeEnvironmentDefaults_def hoistVarfile_def mergeVariables_def mergeProviders_def
        truthyProp_def orElse_def)
  have p: "truthyProp ?result ''project'' = None"
    by (simp add: truthyProp_def)
  have m: "truthyProp ?result ''module'' = None"
    by (simp add: truthyProp_def)
  have s: "getProp ?result ''kind'' = Some (JStr ''Project'') \<longrightarrow> providersSettled ?result"
    by (simp add: providersSettled_def truthyProp_def)
  from first migrateSpec_idempotent [OF first p m s] show ?thesis
    by simp
qed

text \<open>
  The claim as it is written fails at a project whose defaults name the legacy provider:
  the first run hoists the provider under its old name, the second run renames it.
\<close>

theorem migrateSpec_idempotent_counterexample:
  "migrateSpec
     (JObj [(''kind'', JStr ''Project''), (''environments'', JArr []),
            (''environmentDefaults'',
             JObj [(''providers'', JArr [JObj [(''name'', JStr ''local-openfaas'')]])])])
     ''garden.yml'' =
     Inr (JObj [(''kind'', JStr ''Project''), (''environments'', JArr []),
                (''providers'', JArr [JObj [(''name'', JStr ''local-openfaas'')]])]) \<and>
   migrateSpec
     (JObj [(''kind'', JStr ''Project''), (''environments'', JArr []),
            (''providers'', JArr [JObj [(''name'', JStr ''local-openfaas'')]])])
     ''garden.yml'' =
     Inr (JObj [(''kind'', JStr ''Project''), (''environments'', JArr []),
                (''providers'', JArr [JObj [(''name'', JStr ''openfaas'')]])]) \<and>
   JObj [(''kind'', JStr ''Project''), (''environments'', JArr []),
         (''providers'', JArr [JObj [(''name'', JStr ''openfaas'')]])] \<noteq>
   JObj [(''kind'', JStr ''Project''), (''environments'', JArr []),
         (''providers'', JArr [JObj [(''name'', JStr ''local-openfaas'')]])]"
  by (simp add: migrateSpec_def applyFlatStyle_def removeLocalOpenFaas_def
      renameProvidersOf_def renameProvider_def
      removeEnvironmentDefaults_def hoistVarfile_def mergeVariables_def mergeProviders_def
      truthyProp_def orElse_def)

text \<open>
  A wrapper inside a wrapper: the first run removes the outer one, the second run the inner
  one.
\<close>

lemma migrateSpec_nested_wrapper:
  "migrateSpec (JObj [(''module'', JObj [(''module'', JObj [(''name'', JStr ''a'')])])])
     ''garden.yml'' =
     Inr (JObj [(''kind'', JStr ''Module''), (''module'', JObj [(''name'', JStr ''a'')])]) \<and>
   migrateSpec (JObj [(''kind'', JStr ''Module''), (''module'', JObj [(''name'', JStr ''a'')])])
     ''garden.yml'' =
     Inr (JObj [(''kind'', JStr ''Module''), (''name'', JStr ''a'')])"
  by (simp add: migrateSpec_def applyFlatStyle_def spreadInto_def removeLocalOpenFaas_def
      removeEnvironmentDefaults_def truthyProp_def)

section \<open>The claim about \<^verbatim>\<open>findRoot\<close>\<close>

text \<open>
  Claim C6. The search always returns: \<open>findRoot\<close> is a total function, its recursion
  ends after one step at the latest, since \<^verbatim>\<open>resolve\<close> returns an absolute path. It does
  not return what the claim and the comments of the source say. \<^verbatim>\<open>parse(path).root\<close> is
  \<^verbatim>\<open>"/"\<close>, which is truthy, for every absolute path and not only for the root of the file
  system: from an absolute start the search looks at the start alone and never at a
  parent, and from a relative start it looks at the start and at one directory above it.
\<close>

theorem findRoot_stops_at_absolute_path:
  "(isAbsolute path \<longrightarrow>
      findRoot files cwd path = (if isProjectRoot files path then Some path else None)) \<and>
   (\<not> isAbsolute path \<longrightarrow>
      findRoot files cwd path =
        (if isProjectRoot files path then Some path
         else if isProjectRoot files (resolve cwd path ''..'')
           then Some (resolve cwd path ''..'') else None))"
proof -
  have "isAbsolute (resolve cwd path ''..'')"
    by (simp add: resolve_def)
  then have "findRoot files cwd (resolve cwd path ''..'') =
      (if isProjectRoot files (resolve cwd path ''..'')
       then Some (resolve cwd path ''..'') else None)"
    by (subst findRoot.simps) (simp add: parseRoot_def)
  then show ?thesis
    by (subst (1 2) findRoot.simps) (simp add: parseRoot_def)
qed

text \<open>
  The theorem at the start \<^verbatim>\<open>/a/b\<close>, with the only project in \<^verbatim>\<open>/a\<close>: the code returns
  \<^verbatim>\<open>null\<close>, and the search upward through the parents would return \<^verbatim>\<open>/a\<close>.
\<close>

theorem findRoot_stops_at_absolute_path_witness:
  "findRoot projectInA (Path True [''a'', ''b'']) (Path True [''a'', ''b'']) = None \<and>
   findRootUpward projectInA (Path True [''a'', ''b'']) (Path True [''a'', ''b'']) =
     Some (Path True [''a''])"
proof -
  let ?start = "Path True [''a'', ''b'']"
  have p: "\<not> isProjectRoot projectInA ?start"
    by (simp add: isProjectRoot_def readYaml_def projectInA_def)
  have q: "isProjectRoot projectInA (Path True [''a''])"
    by (simp add: isProjectRoot_def readYaml_def projectInA_def isProjectSpec_def truthyProp_def)
  have c: "parentChain ?start ?start = [Path True [''a''], Path True []]"
    by (simp add: parentChain_def normalizeSegments_def normalizeStep_def upt_rec)
  have "findRoot projectInA ?start ?start = None"
    using findRoot_stops_at_absolute_path [of ?start projectInA ?start] p
    by simp
  moreover have "findRootUpward projectInA ?start ?start = Some (Path True [''a''])"
    using p q by (simp add: findRootUpward_def c)
  ultimately show ?thesis
    by simp
qed

section \<open>The claims about the telemetry handler\<close>



text \<open>
  Claim C8. The listener that the handler registers for every event calls \<^verbatim>\<open>trackTask\<close>,
  with the name of the event as the status of the task, exactly when the name is one of
  \<^verbatim>\<open>taskPending\<close>, \<^verbatim>\<open>taskProcessing\<close>, \<^verbatim>\<open>taskComplete\<close> and \<^verbatim>\<open>taskError\<close>, and leaves the
  handler as it is for every other name. For a user who has opted in it hands one event of
  type \<^verbatim>\<open>TASK\<close> to the tracking service for an event of these four names and none for any
  other; over the events of a run, the service receives as many events as the run has
  events of these names.
\<close>

theorem processEvent_dispatch:
  "processEvent hasha h name payload =
     (if name \<in> {''taskPending'', ''taskProcessing'', ''taskComplete'', ''taskError''}
      then trackTask hasha h (payloadBatchId payload) (payloadName payload)
             (payloadType payload) name
      else h) \<and>
   length (sent h (processEvent hasha h name payload)) =
     (if hasOptedIn h \<and>
         name \<in> {''taskPending'', ''taskProcessing'', ''taskComplete'', ''taskError''}
      then 1 else 0) \<and>
   list_all (\<lambda>ev. event ev = TASK \<and> map_of (properties ev) ''taskStatus'' = Some (PString name))
     (sent h (processEvent hasha h name payload)) \<and>
   length (segment (onAny hasha h events)) =
     length (segment h) +
     (if hasOptedIn h
      then length (filter (\<lambda>(name, payload).
             name \<in> {''taskPending'', ''taskProcessing'', ''taskComplete'', ''taskError''}) events)
      else 0)"
proof -
  have "sent h h = []"
    by (simp add: sent_def)
  then show ?thesis
    using trackTask_sent
      [of h hasha "payloadBatchId payload" "payloadName payload" "payloadType payload" name]
    by (simp add: processEvent_def length_segment_onAny isSupportedEvent_iff merge_conv'
        update_conv' map_add_def getBasicAnalyticsProperties_def)
qed

text \<open>
  The theorem at a handler whose user has opted in: an event named \<^verbatim>\<open>taskAborted\<close> changes
  nothing, an event named \<^verbatim>\<open>taskError\<close> is tracked, and of three events of a run the two
  with a supported name are tracked.
\<close>

theorem processEvent_dispatch_witness:
  "processEvent rev optedInHandler ''taskAborted''
     \<lparr>payloadBatchId = ''b1'', payloadName = ''build.api'', payloadType = ''build''\<rparr> =
     optedInHandler \<and>
   length (sent optedInHandler
     (processEvent rev optedInHandler ''taskError''
        \<lparr>payloadBatchId = ''b1'', payloadName = ''build.api'', payloadType = ''build''\<rparr>)) = 1 \<and>
   length (segment (onAny rev optedInHandler
     [(''taskPending'', \<lparr>payloadBatchId = ''b1'', payloadName = ''build.api'', payloadType = ''build''\<rparr>),
      (''taskGraphComplete'', \<lparr>payloadBatchId = ''b1'', payloadName = ''build.api'', payloadType = ''build''\<rparr>),
      (''taskComplete'', \<lparr>payloadBatchId = ''b1'', payloadName = ''build.api'', payloadType = ''build''\<rparr>)])) = 2"
proof -
  let ?payload = "\<lparr>payloadBatchId = ''b1'', payloadName = ''build.api'', payloadType = ''build''\<rparr>"
  let ?events = "[(''taskPending'', ?payload), (''taskGraphComplete'', ?payload),
                  (''taskComplete'', ?payload)]"
  have o: "hasOptedIn optedInHandler \<and> segment optedInHandler = []"
    by (simp add: hasOptedIn_def optedInHandler_def)
  have 1: "processEvent rev optedInHandler ''taskAborted'' ?payload = optedInHandler"
    using processEvent_dispatch [of rev optedInHandler "''taskAborted''" ?payload ?events]
    by simp
  have 2: "length (sent optedInHandler
      (processEvent rev optedInHandler ''taskError'' ?payload)) = 1"
    using processEvent_dispatch
      [of rev optedInHandler "''taskError''" ?payload ?events, THEN conjunct2, THEN conjunct1] o
    by simp
  have 3: "length (segment (onAny rev optedInHandler ?events)) = 2"
    using processEvent_dispatch [of rev optedInHandler "''taskError''" ?payload ?events] o
    by simp
  from 1 2 3 show ?thesis
    by simp
qed

end
